theory Spec2Isabelle
  imports
    Complex_Main
    "HOL-Library.Multiset"
    "HOL-Library.Sublist"
    "HOL-Library.Char_ord"
    "HOL-Library.List_Lexorder"
    "HOL-Library.Product_Lexorder"
begin

section \<open>Data model\<close>

text \<open>
  A finite JavaScript number is modelled by its exact value, a rational. The values
  \<open>Infinity\<close>, \<open>-Infinity\<close> and \<open>NaN\<close> are kept as values of their own. The two
  zeros of JavaScript are one value here.
\<close>

type_synonym number = rat

datatype jsnum = NaN | NegInf | Fin number | PosInf

text \<open>
  A product identifier is a number in the product collection and a string in a
  saved cart; \<open>===\<close> on two identifiers is equality of these values.
\<close>

datatype ident = NumId int | StrId string

text \<open>
  A price map (\<open>prices\<close>) is the list of its entries in insertion order; its keys
  are distinct. On the server it is a Mongoose \<open>Map\<close> of \<open>Number\<close>, in the browser
  a plain object.
\<close>

type_synonym price_map = "(string \<times> number) list"

record product =
  ident :: ident
  name :: string
  category :: string
  prices :: price_map
  popularity :: number
  rating :: number

text \<open>
  A line of the cart in the browser. \<open>item_id\<close>, \<open>item_name\<close> and \<open>item_prices\<close> are
  its fields \<open>id\<close>, \<open>name\<close> and \<open>prices\<close>. \<open>quantity\<close> is any number, \<open>NaN\<close> and the
  infinities included. \<open>other_fields\<close> is the product whose remaining fields the line
  carries when it was made by \<open>{ ...product, quantity }\<close>, and \<open>None\<close> for a line that
  came back from the server, where only the fields of the schema are kept.
\<close>

record cart_item =
  item_id :: ident
  item_name :: string
  item_prices :: price_map
  quantity :: jsnum
  other_fields :: "product option"

section \<open>JavaScript primitives used by the code\<close>

text \<open>\<open>Math.min(...vs)\<close> and \<open>Math.max(...vs)\<close> on finite numbers.\<close>

fun math_min :: "number list \<Rightarrow> jsnum" where
  "math_min [] = PosInf"
| "math_min (v # vs) = Fin (fold min vs v)"

fun math_max :: "number list \<Rightarrow> jsnum" where
  "math_max [] = NegInf"
| "math_max (v # vs) = Fin (fold max vs v)"

text \<open>
  The binary \<open>-\<close> of JavaScript on these values, as the sort comparators use it.
  The comparators of the handler only ever subtract the infinities that \<open>Math.min()\<close>
  and \<open>Math.max()\<close> give for no values; for two finite numbers the exact difference
  stands here.
\<close>

fun js_sub :: "jsnum \<Rightarrow> jsnum \<Rightarrow> jsnum" where
  "js_sub NaN _ = NaN"
| "js_sub _ NaN = NaN"
| "js_sub (Fin a) (Fin b) = Fin (a - b)"
| "js_sub (Fin a) PosInf = NegInf"
| "js_sub (Fin a) NegInf = PosInf"
| "js_sub PosInf PosInf = NaN"
| "js_sub PosInf _ = PosInf"
| "js_sub NegInf NegInf = NaN"
| "js_sub NegInf _ = NegInf"

text \<open>\<open>v > 0\<close>: false for \<open>NaN\<close>, which \<open>Array.prototype.sort\<close> reads as \<open>+0\<close>.\<close>

fun js_pos :: "jsnum \<Rightarrow> bool" where
  "js_pos PosInf = True"
| "js_pos (Fin r) = (0 < r)"
| "js_pos _ = False"

text \<open>
  \<open>Array.prototype.sort(comparefn)\<close>: the sort is stable (ECMAScript 2019), an element
  \<open>x\<close> goes behind \<open>y\<close> exactly when \<open>comparefn(x, y) > 0\<close>. For a consistent comparator
  every conforming implementation returns the list that this insertion sort returns.
\<close>

fun sort_insert :: "('a \<Rightarrow> 'a \<Rightarrow> jsnum) \<Rightarrow> 'a \<Rightarrow> 'a list \<Rightarrow> 'a list" where
  "sort_insert cmp x [] = [x]"
| "sort_insert cmp x (y # ys) =
     (if js_pos (cmp x y) then y # sort_insert cmp x ys else x # y # ys)"

definition js_sort :: "('a \<Rightarrow> 'a \<Rightarrow> jsnum) \<Rightarrow> 'a list \<Rightarrow> 'a list" where
  "js_sort cmp xs = foldr (sort_insert cmp) xs []"

text \<open>
  \<open>xs.slice(0, end)\<close> for an integer \<open>end\<close>: a negative \<open>end\<close> counts from the end of
  the array, and the bounds are clamped to the array.
\<close>

definition js_slice0 :: "int \<Rightarrow> 'a list \<Rightarrow> 'a list" where
  "js_slice0 end xs =
     (let len = int (length xs);
          final = (if end < 0 then max (len + end) 0 else min end len)
      in take (nat final) xs)"

text \<open>
  An object that holds a price map is a plain object, whose entries are its own
  enumerable properties, or a native \<open>Map\<close>, which has no own enumerable property:
  \<open>Object.values\<close> of a native \<open>Map\<close> is the empty array.
\<close>

datatype js_object = PlainObject price_map | NativeMap price_map

fun Object_values :: "js_object \<Rightarrow> number list" where
  "Object_values (PlainObject m) = map snd m"
| "Object_values (NativeMap m) = []"

text \<open>
  Arithmetic on numbers is IEEE 754 double arithmetic: the exact result of an
  operation on two finite numbers is rounded to a double, or to an infinity when it is
  out of range. The rounding is the parameter \<open>rnd\<close> of every function that computes;
  \<open>rounds rnd\<close> holds what is used of it: it never yields \<open>NaN\<close>, it is monotone, and
  it leaves \<open>1\<close> as it is.
\<close>

type_synonym rounding = "rat \<Rightarrow> jsnum"

fun js_add :: "rounding \<Rightarrow> jsnum \<Rightarrow> jsnum \<Rightarrow> jsnum" where
  "js_add rnd NaN _ = NaN"
| "js_add rnd _ NaN = NaN"
| "js_add rnd (Fin a) (Fin b) = rnd (a + b)"
| "js_add rnd PosInf NegInf = NaN"
| "js_add rnd NegInf PosInf = NaN"
| "js_add rnd PosInf _ = PosInf"
| "js_add rnd _ PosInf = PosInf"
| "js_add rnd NegInf _ = NegInf"
| "js_add rnd _ NegInf = NegInf"

fun js_neg :: "jsnum \<Rightarrow> jsnum" where
  "js_neg NaN = NaN"
| "js_neg (Fin a) = Fin (- a)"
| "js_neg PosInf = NegInf"
| "js_neg NegInf = PosInf"

text \<open>\<open>a - b\<close> where the result is rounded: in double arithmetic it is \<open>a + (-b)\<close>.\<close>

definition js_minus :: "rounding \<Rightarrow> jsnum \<Rightarrow> jsnum \<Rightarrow> jsnum" where
  "js_minus rnd a b = js_add rnd a (js_neg b)"

fun js_mul :: "rounding \<Rightarrow> jsnum \<Rightarrow> jsnum \<Rightarrow> jsnum" where
  "js_mul rnd NaN _ = NaN"
| "js_mul rnd _ NaN = NaN"
| "js_mul rnd (Fin a) (Fin b) = rnd (a * b)"
| "js_mul rnd (Fin a) PosInf = (if a = 0 then NaN else if 0 < a then PosInf else NegInf)"
| "js_mul rnd (Fin a) NegInf = (if a = 0 then NaN else if 0 < a then NegInf else PosInf)"
| "js_mul rnd PosInf (Fin b) = (if b = 0 then NaN else if 0 < b then PosInf else NegInf)"
| "js_mul rnd NegInf (Fin b) = (if b = 0 then NaN else if 0 < b then NegInf else PosInf)"
| "js_mul rnd PosInf PosInf = PosInf"
| "js_mul rnd PosInf NegInf = NegInf"
| "js_mul rnd NegInf PosInf = NegInf"
| "js_mul rnd NegInf NegInf = PosInf"

text \<open>The comparisons \<open>a < b\<close>, \<open>a <= b\<close> and \<open>a >= b\<close>: false when an operand is \<open>NaN\<close>.\<close>

fun js_lt :: "jsnum \<Rightarrow> jsnum \<Rightarrow> bool" where
  "js_lt NaN _ = False"
| "js_lt _ NaN = False"
| "js_lt (Fin a) (Fin b) = (a < b)"
| "js_lt _ NegInf = False"
| "js_lt NegInf _ = True"
| "js_lt PosInf _ = False"
| "js_lt _ PosInf = True"

fun js_le :: "jsnum \<Rightarrow> jsnum \<Rightarrow> bool" where
  "js_le NaN _ = False"
| "js_le _ NaN = False"
| "js_le (Fin a) (Fin b) = (a \<le> b)"
| "js_le NegInf _ = True"
| "js_le _ PosInf = True"
| "js_le _ NegInf = False"
| "js_le PosInf _ = False"

definition js_ge :: "jsnum \<Rightarrow> jsnum \<Rightarrow> bool" where
  "js_ge a b = js_le b a"

text \<open>\<open>Math.min(a, b)\<close> and \<open>Math.max(a, b)\<close>: \<open>NaN\<close> when an argument is \<open>NaN\<close>.\<close>

definition js_min :: "jsnum \<Rightarrow> jsnum \<Rightarrow> jsnum" where
  "js_min a b = (if a = NaN \<or> b = NaN then NaN else if js_lt b a then b else a)"

definition js_max :: "jsnum \<Rightarrow> jsnum \<Rightarrow> jsnum" where
  "js_max a b = (if a = NaN \<or> b = NaN then NaN else if js_lt a b then b else a)"

text \<open>A number is falsy when it is zero or \<open>NaN\<close>.\<close>

definition js_falsy :: "jsnum \<Rightarrow> bool" where
  "js_falsy n \<longleftrightarrow> n = Fin 0 \<or> n = NaN"


section \<open>The product collection\<close>

text \<open>
  \<open>Product.find()\<close> yields the documents of the collection, here the list \<open>docs\<close> in
  the order the database returns them. \<open>.sort(option)\<close> and \<open>.limit(n)\<close> are run by
  MongoDB, not by code of this repository: the sort is a parameter \<open>eng\<close> of the
  handler, and what MongoDB promises about it is \<open>sorted_query\<close>: the documents come
  back ordered by the sort key, each exactly once. The order of documents with equal
  keys is not promised.
\<close>

datatype sort_field = Name | Popularity | Rating

datatype sort_option = Ascending sort_field | Descending sort_field

type_synonym engine = "sort_option \<Rightarrow> product list \<Rightarrow> product list"

fun field_le :: "sort_field \<Rightarrow> product \<Rightarrow> product \<Rightarrow> bool" where
  "field_le Name a b = (name a \<le> name b)"
| "field_le Popularity a b = (popularity a \<le> popularity b)"
| "field_le Rating a b = (rating a \<le> rating b)"

fun doc_le :: "sort_option \<Rightarrow> product \<Rightarrow> product \<Rightarrow> bool" where
  "doc_le (Ascending f) a b = field_le f a b"
| "doc_le (Descending f) a b = field_le f b a"

definition sorted_query :: "engine \<Rightarrow> sort_option \<Rightarrow> product list \<Rightarrow> bool" where
  "sorted_query eng opt docs \<longleftrightarrow>
     mset (eng opt docs) = mset docs \<and> sorted_wrt (doc_le opt) (eng opt docs)"

text \<open>
  \<open>.limit(n)\<close> of a MongoDB cursor: \<open>0\<close> is no limit, a negative \<open>n\<close> limits to
  \<open>-n\<close> documents.
\<close>

definition mongo_limit :: "int \<Rightarrow> 'a list \<Rightarrow> 'a list" where
  "mongo_limit n xs = (if n = 0 then xs else take (nat \<bar>n\<bar>) xs)"

text \<open>
  Two engines that keep the promise: one leaves documents with equal keys in
  collection order, the other one reverses them.
\<close>

fun doc_insert :: "sort_option \<Rightarrow> product \<Rightarrow> product list \<Rightarrow> product list" where
  "doc_insert opt x [] = [x]"
| "doc_insert opt x (y # ys) =
     (if doc_le opt x y then x # y # ys else y # doc_insert opt x ys)"

definition stable_engine :: engine where
  "stable_engine opt docs = foldr (doc_insert opt) docs []"

definition reversing_engine :: engine where
  "reversing_engine opt docs = stable_engine opt (rev docs)"

section \<open>Ranking: getTopProducts (backend/controllers/ProductController.js)\<close>

text \<open>
  The documents that \<open>Product.find()\<close> yields are Mongoose documents, and \<open>prices\<close>
  is declared \<open>type: Map\<close> in the schema of the product: \<open>a.prices\<close> is a Mongoose map,
  and its \<open>toObject()\<close>, called without the option \<open>flattenMaps\<close>, is a native \<open>Map\<close>
  of the same entries.
\<close>

definition toObject :: "price_map \<Rightarrow> js_object" where
  "toObject m = NativeMap m"

text \<open>The comparator of the case \<open>"cheapest"\<close>.\<close>

definition cheapest_cmp :: "product \<Rightarrow> product \<Rightarrow> jsnum" where
  "cheapest_cmp a b =
     (let minPriceA = math_min (Object_values (toObject (prices a)));
          minPriceB = math_min (Object_values (toObject (prices b)))
      in js_sub minPriceA minPriceB)"

text \<open>The comparator of the case \<open>"highest different"\<close>.\<close>

definition highest_different_cmp :: "product \<Rightarrow> product \<Rightarrow> jsnum" where
  "highest_different_cmp a b =
     (let pricesA = Object_values (toObject (prices a));
          pricesB = Object_values (toObject (prices b));
          diffA = js_sub (math_max pricesA) (math_min pricesA);
          diffB = js_sub (math_max pricesB) (math_min pricesB)
      in js_sub diffB diffA)"

text \<open>
  The handler. \<open>qcriteria\<close> is \<open>req.query.criteria\<close> (\<open>None\<close> when the parameter is
  absent) and \<open>qlimit\<close> is the value of \<open>parseInt(req.query.limit)\<close> (\<open>None\<close> for
  \<open>NaN\<close>: the parameter is absent or does not start with a number). The result is the
  list passed to \<open>res.json\<close>. The \<open>catch\<close> branch of the handler answers a failure of
  the database call, which is outside this model.
\<close>

definition getTopProducts ::
  "engine \<Rightarrow> product list \<Rightarrow> string option \<Rightarrow> int option \<Rightarrow> product list" where
  "getTopProducts eng docs qcriteria qlimit =
     (let criteria = (case qcriteria of None \<Rightarrow> ''cheapest''
                      | Some s \<Rightarrow> if s = [] then ''cheapest'' else s);
          limit = (case qlimit of None \<Rightarrow> 10
                   | Some n \<Rightarrow> if n = 0 then 10 else n)
      in if criteria = ''cheapest'' then
           js_slice0 limit (js_sort cheapest_cmp docs)
         else if criteria = ''highest different'' then
           js_slice0 limit (js_sort highest_different_cmp docs)
         else if criteria = ''most selected'' then
           mongo_limit limit (eng (Descending Popularity) docs)
         else if criteria = ''highest rated'' then
           mongo_limit limit (eng (Descending Rating) docs)
         else
           mongo_limit limit (eng (Ascending Name) docs))"

text \<open>
  Two products tie under a comparator when it puts neither behind the other
  (it returns \<open>0\<close> or \<open>NaN\<close> both ways).
\<close>

definition ties :: "('a \<Rightarrow> 'a \<Rightarrow> jsnum) \<Rightarrow> 'a \<Rightarrow> 'a \<Rightarrow> bool" where
  "ties cmp p q \<longleftrightarrow> \<not> js_pos (cmp p q) \<and> \<not> js_pos (cmp q p)"

text \<open>The criteria that the \<open>switch\<close> of the handler names.\<close>

definition recognized :: "string set" where
  "recognized = {''cheapest'', ''highest different'', ''most selected'', ''highest rated''}"

section \<open>The cart of the browser: CartProvider (frontend/src/api/cartAPI.js)\<close>

text \<open>
  The functions of the provider read the state variable \<open>cart\<close> and hand the new
  value to \<open>setCart\<close>: each is a function from the cart to the new cart.
\<close>

text \<open>\<open>Array.prototype.findIndex\<close>: the first index that satisfies \<open>P\<close>, or \<open>-1\<close>.\<close>

fun findIndex :: "('a \<Rightarrow> bool) \<Rightarrow> 'a list \<Rightarrow> int" where
  "findIndex P [] = -1"
| "findIndex P (x # xs) =
     (if P x then 0 else (let i = findIndex P xs in if i = -1 then -1 else i + 1))"

text \<open>\<open>{ ...product, quantity }\<close>\<close>

definition with_quantity :: "product \<Rightarrow> jsnum \<Rightarrow> cart_item" where
  "with_quantity p q =
     \<lparr>item_id = ident p, item_name = name p, item_prices = prices p, quantity = q,
      other_fields = Some p\<rparr>"

text \<open>
  The third parameter has the default \<open>1\<close>; \<open>None\<close> is an omitted argument.
  \<open>===\<close> on the identifiers is equality: a number and a string are never equal.
\<close>

definition addToCart ::
  "rounding \<Rightarrow> cart_item list \<Rightarrow> product \<Rightarrow> jsnum option \<Rightarrow> cart_item list" where
  "addToCart rnd cart p qarg =
     (let q = (case qarg of None \<Rightarrow> Fin 1 | Some v \<Rightarrow> v);
          existingItemIndex = findIndex (\<lambda>item. item_id item = ident p) cart
      in if existingItemIndex > -1 then
           (let i = nat existingItemIndex
            in cart[i := (cart ! i)\<lparr>quantity := js_add rnd (quantity (cart ! i)) q\<rparr>])
         else cart @ [with_quantity p q])"

definition removeFromCart :: "cart_item list \<Rightarrow> ident \<Rightarrow> cart_item list" where
  "removeFromCart cart productId = filter (\<lambda>item. item_id item \<noteq> productId) cart"

text \<open>
  \<open>newQuantity\<close> is any number: \<open>NaN < 1\<close> is false, so a \<open>NaN\<close> passes the guard and
  is stored.
\<close>

definition updateQuantity :: "cart_item list \<Rightarrow> ident \<Rightarrow> jsnum \<Rightarrow> cart_item list" where
  "updateQuantity cart productId newQuantity =
     (if js_lt newQuantity (Fin 1) then cart
      else map (\<lambda>item. if item_id item = productId
                        then item\<lparr>quantity := newQuantity\<rparr> else item) cart)"

definition clearCart :: "cart_item list \<Rightarrow> cart_item list" where
  "clearCart cart = []"

definition loadCart :: "cart_item list \<Rightarrow> cart_item list \<Rightarrow> cart_item list" where
  "loadCart cart items = items"

subsection \<open>getSupermarketTotals\<close>

text \<open>
  \<open>totals\<close> starts as the object literal \<open>{}\<close>: besides its own properties, which the
  map holds, it has the properties that every plain object inherits from
  \<open>Object.prototype\<close>. A read of \<open>totals[market]\<close> finds the own property, else the
  inherited one, else \<open>undefined\<close> (\<open>None\<close>). The inherited values are functions, and
  for \<open>__proto__\<close> the prototype object: they are kept as \<open>Inherited\<close> with the name
  of the property. \<open>Concat v n\<close> is the string that \<open>+\<close> builds from a value \<open>v\<close> that is
  not a number and the number \<open>n\<close>.
\<close>

datatype jsvalue = Number jsnum | Inherited string | Concat jsvalue jsnum

type_synonym totals = "string \<rightharpoonup> jsvalue"

definition object_prototype_keys :: "string set" where
  "object_prototype_keys =
     {''constructor'', ''hasOwnProperty'', ''isPrototypeOf'', ''propertyIsEnumerable'',
      ''toLocaleString'', ''toString'', ''valueOf'', ''__proto__'',
      ''__defineGetter__'', ''__defineSetter__'', ''__lookupGetter__'', ''__lookupSetter__''}"

definition get_property :: "totals \<Rightarrow> string \<Rightarrow> jsvalue option" where
  "get_property obj k =
     (case obj k of
        Some v \<Rightarrow> Some v
      | None \<Rightarrow> if k \<in> object_prototype_keys then Some (Inherited k) else None)"

text \<open>
  An assignment to \<open>__proto__\<close> of a value that is not an object goes to the setter
  of \<open>Object.prototype\<close>, which ignores it; any other assignment makes an own property.
\<close>

definition set_property :: "totals \<Rightarrow> string \<Rightarrow> jsvalue \<Rightarrow> totals" where
  "set_property obj k v = (if k = ''__proto__'' then obj else obj(k \<mapsto> v))"

text \<open>\<open>!v\<close>: true for \<open>undefined\<close>, for zero and for \<open>NaN\<close>.\<close>

fun falsy_value :: "jsvalue option \<Rightarrow> bool" where
  "falsy_value None = True"
| "falsy_value (Some (Number n)) = js_falsy n"
| "falsy_value (Some _) = False"

text \<open>\<open>v + n\<close> for a number \<open>n\<close>: \<open>undefined + n\<close> is \<open>NaN\<close>.\<close>

fun plus_number :: "rounding \<Rightarrow> jsvalue option \<Rightarrow> jsnum \<Rightarrow> jsvalue" where
  "plus_number rnd None n = Number NaN"
| "plus_number rnd (Some (Number a)) n = Number (js_add rnd a n)"
| "plus_number rnd (Some v) n = Concat v n"

text \<open>
  The body of the inner loop, for the entry \<open>[market, price]\<close> of an item of quantity
  \<open>qty\<close>:
  \<^verbatim>\<open>if (!totals[market]) totals[market] = 0; totals[market] += price * item.quantity;\<close>
\<close>

definition add_entry :: "rounding \<Rightarrow> jsnum \<Rightarrow> string \<times> number \<Rightarrow> totals \<Rightarrow> totals" where
  "add_entry rnd qty e totals =
     (let market = fst e; price = snd e;
          t = (if falsy_value (get_property totals market)
               then set_property totals market (Number (Fin 0)) else totals)
      in set_property t market
           (plus_number rnd (get_property t market) (js_mul rnd (Fin price) qty)))"

definition getSupermarketTotals :: "rounding \<Rightarrow> cart_item list \<Rightarrow> totals" where
  "getSupermarketTotals rnd cart =
     fold (\<lambda>item totals. fold (add_entry rnd (quantity item)) (item_prices item) totals)
       cart Map.empty"

subsection \<open>The quantity of a line\<close>



section \<open>The components that call the cart (main.jsx, ProductModal.jsx, CartPage.jsx, SavedCartsPage.jsx)\<close>

text \<open>
  \<open>ProductCard\<close> and \<open>ProductModal\<close> hold the amount to add in a state variable
  \<open>quantity\<close> of their own and pass it to \<open>addToCart(product, null, quantity)\<close>; these
  are the only calls of \<open>addToCart\<close>. The state starts at \<open>1\<close> in \<open>ProductCard\<close> and at
  \<open>existingItem?.quantity || 1\<close> in \<open>ProductModal\<close>, and changes by the two buttons and
  by the input field.
\<close>

definition increaseQty :: "rounding \<Rightarrow> jsnum \<Rightarrow> jsnum" where
  "increaseQty rnd q = js_min (js_add rnd q (Fin 1)) (Fin 99)"

definition decreaseQty :: "rounding \<Rightarrow> jsnum \<Rightarrow> jsnum" where
  "decreaseQty rnd q = js_max (js_minus rnd q (Fin 1)) (Fin 1)"

text \<open>
  The \<open>onChange\<close> of the input field, with \<open>val = parseInt(e.target.value)\<close>:
  \<^verbatim>\<open>if (!isNaN(val) && val >= 1 && val <= 99) setQuantity(val);\<close>
\<close>

definition typed_quantity :: "jsnum \<Rightarrow> jsnum \<Rightarrow> jsnum" where
  "typed_quantity val q =
     (if val \<noteq> NaN \<and> js_ge val (Fin 1) \<and> js_le val (Fin 99) then val else q)"

text \<open>
  \<open>existingItem?.quantity || 1\<close> with
  \<open>existingItem = cart.find((item) => item.id === product.id)\<close>.
\<close>

definition existing_quantity :: "cart_item list \<Rightarrow> product \<Rightarrow> jsnum" where
  "existing_quantity cart p =
     (case find (\<lambda>item. item_id item = ident p) cart of
        None \<Rightarrow> Fin 1
      | Some existingItem \<Rightarrow>
          if js_falsy (quantity existingItem) then Fin 1 else quantity existingItem)"

text \<open>
  The events of the user interface that touch the cart or an amount. \<open>CartItem\<close> is
  rendered for every line of the cart; its buttons call
  \<open>updateQuantity(item.id, item.quantity - 1)\<close>, \<open>updateQuantity(item.id, item.quantity + 1)\<close>
  and \<open>removeFromCart(item.id)\<close>; the number is the position of the line.
  \<open>Load_saved\<close> is \<open>loadCart(selectedCart.items)\<close> of \<open>SavedCartsPage\<close> for the items
  of a saved cart that the server has sent; \<open>setCart(savedCart.items)\<close> of
  \<open>loadSavedCart\<close>, which no component calls, has the same effect. A disabled button
  is treated as one that can still be clicked.
\<close>

datatype event =
    Mount_ProductCard
  | Mount_ProductModal product
  | Click_increase
  | Click_decrease
  | Type_quantity jsnum
  | Add_from_ProductCard product
  | Add_from_ProductModal product
  | Click_item_minus nat
  | Click_item_plus nat
  | Click_item_remove nat
  | Confirm_clear
  | Load_saved "cart_item list"

record ui_state =
  ui_cart :: "cart_item list"
  ui_quantity :: jsnum

fun ui_step :: "rounding \<Rightarrow> event \<Rightarrow> ui_state \<Rightarrow> ui_state" where
  "ui_step rnd Mount_ProductCard s = s\<lparr>ui_quantity := Fin 1\<rparr>"
| "ui_step rnd (Mount_ProductModal p) s = s\<lparr>ui_quantity := existing_quantity (ui_cart s) p\<rparr>"
| "ui_step rnd Click_increase s = s\<lparr>ui_quantity := increaseQty rnd (ui_quantity s)\<rparr>"
| "ui_step rnd Click_decrease s = s\<lparr>ui_quantity := decreaseQty rnd (ui_quantity s)\<rparr>"
| "ui_step rnd (Type_quantity val) s = s\<lparr>ui_quantity := typed_quantity val (ui_quantity s)\<rparr>"
| "ui_step rnd (Add_from_ProductCard p) s =
     \<lparr>ui_cart = addToCart rnd (ui_cart s) p (Some (ui_quantity s)), ui_quantity = Fin 1\<rparr>"
| "ui_step rnd (Add_from_ProductModal p) s =
     s\<lparr>ui_cart := addToCart rnd (ui_cart s) p (Some (ui_quantity s))\<rparr>"
| "ui_step rnd (Click_item_minus i) s =
     (if i < length (ui_cart s) then
        (let item = ui_cart s ! i
         in s\<lparr>ui_cart := updateQuantity (ui_cart s) (item_id item)
                            (js_minus rnd (quantity item) (Fin 1))\<rparr>)
      else s)"
| "ui_step rnd (Click_item_plus i) s =
     (if i < length (ui_cart s) then
        (let item = ui_cart s ! i
         in s\<lparr>ui_cart := updateQuantity (ui_cart s) (item_id item)
                            (js_add rnd (quantity item) (Fin 1))\<rparr>)
      else s)"
| "ui_step rnd (Click_item_remove i) s =
     (if i < length (ui_cart s) then
        s\<lparr>ui_cart := removeFromCart (ui_cart s) (item_id (ui_cart s ! i))\<rparr>
      else s)"
| "ui_step rnd Confirm_clear s = s\<lparr>ui_cart := clearCart (ui_cart s)\<rparr>"
| "ui_step rnd (Load_saved items) s = s\<lparr>ui_cart := loadCart (ui_cart s) items\<rparr>"

text \<open>The program starts with the empty cart (\<open>useState([])\<close>) and runs the events in turn.\<close>

definition initial_state :: ui_state where
  "initial_state = \<lparr>ui_cart = [], ui_quantity = Fin 1\<rparr>"

definition run :: "rounding \<Rightarrow> event list \<Rightarrow> ui_state \<Rightarrow> ui_state" where
  "run rnd evs s = fold (ui_step rnd) evs s"

section \<open>Saved carts: the schema and POST /api/cart (backend)\<close>

text \<open>
  The schema of a saved cart declares for every item \<open>id\<close> and \<open>name\<close> as required
  strings, \<open>quantity\<close> as a required number with \<open>min: 1\<close>, and \<open>prices\<close> as a map of
  numbers. The validator of \<open>min: 1\<close> accepts a quantity \<open>v\<close> when \<open>v >= 1\<close>.
\<close>

definition CartSchema_quantity :: "jsnum \<Rightarrow> bool" where
  "CartSchema_quantity v = js_ge v (Fin 1)"

text \<open>
  An item as it is stored and sent back: \<open>id\<close> is cast to a string (\<open>to_string n\<close>
  stands for \<open>String(n)\<close>), \<open>name\<close>, \<open>quantity\<close> and \<open>prices\<close> are kept, and fields that
  the schema does not declare are dropped. The \<open>_id\<close> that the database gives to every
  stored item is left out: no code of the cart reads it.
\<close>

definition stored_item :: "(int \<Rightarrow> string) \<Rightarrow> cart_item \<Rightarrow> cart_item" where
  "stored_item to_string item =
     item\<lparr>item_id := (case item_id item of NumId n \<Rightarrow> StrId (to_string n) | StrId s \<Rightarrow> StrId s),
          other_fields := None\<rparr>"

text \<open>
  An event that loads a saved cart loads items that the schema has accepted; every
  other event is free.
\<close>

fun loads_stored_items :: "event \<Rightarrow> bool" where
  "loads_stored_items (Load_saved items) =
     list_all (\<lambda>item. CartSchema_quantity (quantity item)) items"
| "loads_stored_items _ = True"

record cart_doc =
  doc_name :: string
  doc_items :: "cart_item list"
  doc_userId :: string

text \<open>
  \<open>req.body.items\<close> as far as the handler looks at it: a falsy value (\<open>undefined\<close>,
  \<open>null\<close>, \<open>false\<close>, \<open>0\<close>, the empty string), a truthy value that is not an array,
  or an array.
\<close>

datatype 'a body_field = Falsy | NonArray | Array "'a list"

fun truthy :: "'a body_field \<Rightarrow> bool" where
  "truthy Falsy = False"
| "truthy _ = True"

fun isArray :: "'a body_field \<Rightarrow> bool" where
  "isArray (Array _) = True"
| "isArray _ = False"

fun elements :: "'a body_field \<Rightarrow> 'a list" where
  "elements (Array xs) = xs"
| "elements _ = []"

record post_body =
  body_name :: "string option"
  body_items :: "cart_item body_field"

datatype message = CartEmptyCannotSave | ServerErrorSavingCart

datatype reply_body = Message message | Saved cart_doc

record reply =
  status :: nat
  body :: reply_body

text \<open>
  The default name of a cart: the Hebrew word for cart (in UTF-8), a space, and the
  decimal digits \<open>now\<close> of \<open>Date.now()\<close>.
\<close>

definition default_cart_name :: "string \<Rightarrow> string" where
  "default_cart_name now =
     [CHR 0xD7, CHR 0xA2, CHR 0xD7, CHR 0x92, CHR 0xD7, CHR 0x9C, CHR 0xD7, CHR 0x94]
       @ '' '' @ now"

text \<open>
  The handler of \<open>router.post("/")\<close>. It runs behind \<open>authMiddleware\<close>, which has put
  the user of the token into \<open>req.user\<close>; \<open>userId\<close> is \<open>req.user.userId\<close>. The state
  \<open>s\<close> is the collection of saved carts, \<open>save\<close> is \<open>newCart.save()\<close>, and a
  rejected save is caught and answered with status 500.
\<close>

definition post_cart ::
  "(cart_doc \<Rightarrow> 's \<Rightarrow> cart_doc option \<times> 's) \<Rightarrow> string \<Rightarrow> string \<Rightarrow> post_body \<Rightarrow> 's
     \<Rightarrow> reply \<times> 's" where
  "post_cart save now userId req_body s =
     (let items = body_items req_body
      in if \<not> truthy items \<or> \<not> isArray items \<or> length (elements items) = 0 then
           (\<lparr>status = 400, body = Message CartEmptyCannotSave\<rparr>, s)
         else
           (let newCart =
                  \<lparr>doc_name = (case body_name req_body of
                                 None \<Rightarrow> default_cart_name now
                               | Some n \<Rightarrow> if n = [] then default_cart_name now else n),
                   doc_items = elements items,
                   doc_userId = userId\<rparr>
            in case save newCart s of
                 (Some savedCart, s') \<Rightarrow> (\<lparr>status = 201, body = Saved savedCart\<rparr>, s')
               | (None, s') \<Rightarrow> (\<lparr>status = 500, body = Message ServerErrorSavingCart\<rparr>, s')))"

section \<open>Saving the cart from the browser: saveCart (frontend/src/api/cartAPI.js)\<close>

text \<open>
  The state of the provider (\<open>current_cart\<close> is the state variable \<open>cart\<close>).
  \<open>saveCartToDB\<close> and \<open>getSavedCarts\<close> are the imported
  functions that talk to the server: each takes the world \<open>w\<close> outside the browser
  and returns the new one, with \<open>Inl\<close> the message of the error it throws.
\<close>

record provider_state =
  current_cart :: "cart_item list"
  savedCarts :: "cart_doc list"
  loading :: bool
  error :: "string option"

record cart_data =
  data_name :: string
  data_items :: "cart_item list"

text \<open>
  \<open>fetchSavedCarts\<close>: without a user it returns from inside \<open>try\<close>, and the \<open>finally\<close>
  block still runs \<open>setLoading(false)\<close>.
\<close>

definition fetchSavedCarts ::
  "('w \<Rightarrow> (string + cart_doc list) \<times> 'w) \<Rightarrow> bool \<Rightarrow> provider_state \<Rightarrow> 'w
     \<Rightarrow> provider_state \<times> 'w" where
  "fetchSavedCarts getSavedCarts currentUser st w =
     (if \<not> currentUser then (st\<lparr>loading := False\<rparr>, w)
      else case getSavedCarts w of
             (Inr carts, w') \<Rightarrow> (st\<lparr>savedCarts := carts, error := None, loading := False\<rparr>, w')
           | (Inl msg, w') \<Rightarrow>
               (st\<lparr>error := Some (''Error fetching saved carts: '' @ msg), loading := False\<rparr>, w'))"

definition saveCart ::
  "(cart_data \<Rightarrow> 'w \<Rightarrow> (string + cart_doc) \<times> 'w) \<Rightarrow> ('w \<Rightarrow> (string + cart_doc list) \<times> 'w)
     \<Rightarrow> bool \<Rightarrow> string option \<Rightarrow> string \<Rightarrow> provider_state \<Rightarrow> 'w
     \<Rightarrow> cart_doc option \<times> provider_state \<times> 'w" where
  "saveCart saveCartToDB getSavedCarts currentUser name_arg now st w =
     (if length (current_cart st) = 0 then
        (None, st\<lparr>error := Some ''Cannot save an empty cart'', loading := False\<rparr>, w)
      else
        (let cartData =
               \<lparr>data_name = (case name_arg of
                                None \<Rightarrow> default_cart_name now
                              | Some n \<Rightarrow> if n = [] then default_cart_name now else n),
                data_items = current_cart st\<rparr>
         in case saveCartToDB cartData w of
              (Inl msg, w1) \<Rightarrow>
                (None, st\<lparr>error := Some (''Error saving cart: '' @ msg), loading := False\<rparr>, w1)
            | (Inr savedCart, w1) \<Rightarrow>
                (case fetchSavedCarts getSavedCarts currentUser st w1 of
                   (st2, w2) \<Rightarrow> (Some savedCart, st2\<lparr>error := None, loading := False\<rparr>, w2))))"

section \<open>Example data\<close>

definition product_A :: product where
  "product_A = \<lparr>ident = NumId 1, name = ''A'', category = ''dairy'',
     prices = [(''x'', 10), (''y'', 12)], popularity = 0, rating = 0\<rparr>"

definition product_B :: product where
  "product_B = \<lparr>ident = NumId 2, name = ''B'', category = ''dairy'',
     prices = [(''x'', 5), (''y'', 5)], popularity = 0, rating = 0\<rparr>"

definition product_C :: product where
  "product_C = \<lparr>ident = NumId 3, name = ''C'', category = ''dairy'',
     prices = [], popularity = 0, rating = 0\<rparr>"

definition product_D :: product where
  "product_D = \<lparr>ident = NumId 4, name = ''D'', category = ''bread'',
     prices = [(''x'', 10), (''y'', 20)], popularity = 3, rating = 4\<rparr>"

text \<open>A product that a supermarket named \<open>toString\<close> sells.\<close>

definition product_E :: product where
  "product_E = \<lparr>ident = NumId 5, name = ''E'', category = ''tea'',
     prices = [(''toString'', 5)], popularity = 0, rating = 0\<rparr>"

text \<open>The two items of the example of the specification.\<close>

definition item_1 :: cart_item where
  "item_1 = \<lparr>item_id = NumId 1, item_name = ''milk'', item_prices = [(''x'', 10), (''y'', 8)],
     quantity = Fin 2, other_fields = None\<rparr>"

definition item_2 :: cart_item where
  "item_2 = \<lparr>item_id = NumId 2, item_name = ''bread'', item_prices = [(''x'', 5)],
     quantity = Fin 1, other_fields = None\<rparr>"

text \<open>
  Examples of the parameters \<open>save\<close>, \<open>saveCartToDB\<close> and \<open>getSavedCarts\<close>, for a
  world that is a list of saved carts; they stand for no code of the repository. The
  first accepts every document, the second hands the request to the handler of
  POST /api/cart, the third returns the list.
\<close>

definition accepting_save :: "cart_doc \<Rightarrow> cart_doc list \<Rightarrow> cart_doc option \<times> cart_doc list" where
  "accepting_save doc store = (Some doc, store @ [doc])"

definition direct_save ::
  "string \<Rightarrow> string \<Rightarrow> cart_data \<Rightarrow> cart_doc list \<Rightarrow> (string + cart_doc) \<times> cart_doc list" where
  "direct_save now userId d store =
     (case post_cart accepting_save now userId
             \<lparr>body_name = Some (data_name d), body_items = Array (data_items d)\<rparr> store of
        (r, store') \<Rightarrow>
          (case body r of
             Saved doc \<Rightarrow> (Inr doc, store')
           | Message m \<Rightarrow> (Inl ''Failed to save cart'', store')))"

definition direct_fetch :: "cart_doc list \<Rightarrow> (string + cart_doc list) \<times> cart_doc list" where
  "direct_fetch store = (Inr store, store)"

definition empty_state :: provider_state where
  "empty_state = \<lparr>current_cart = [], savedCarts = [], loading = False, error = None\<rparr>"

section \<open>Facts about the JavaScript primitives\<close>

lemma sort_insert_insort_key:
  fixes key :: "'a \<Rightarrow> 'k::linorder"
  assumes "\<forall>y\<in>set ys. js_pos (cmp x y) \<longleftrightarrow> key y < key x"
  shows "sort_insert cmp x ys = insort_key key x ys"
  using assms by (induction ys) (auto simp: not_le)

text \<open>
  When the comparator is the comparison of a key in a linear order, \<open>js_sort\<close> is
  the stable sort by this key.
\<close>

lemma js_sort_sort_key:
  fixes key :: "'a \<Rightarrow> 'k::linorder"
  assumes "\<forall>a\<in>set xs. \<forall>b\<in>set xs. js_pos (cmp a b) \<longleftrightarrow> key b < key a"
  shows "js_sort cmp xs = sort_key key xs"
  using assms
proof (induction xs)
  case Nil
  then show ?case by (simp add: js_sort_def)
next
  case (Cons x xs)
  have ih: "js_sort cmp xs = sort_key key xs" using Cons by simp
  have "sort_insert cmp x (sort_key key xs) = insort_key key x (sort_key key xs)"
    by (rule sort_insert_insort_key) (use Cons.prems in simp)
  with ih show ?case by (simp add: js_sort_def sort_key_def)
qed

text \<open>A comparator that never puts an element behind another leaves the list as it is.\<close>

lemma js_sort_never_behind:
  assumes "\<And>a b. \<not> js_pos (cmp a b)"
  shows "js_sort cmp xs = xs"
proof -
  have "sort_insert cmp x ys = x # ys" for x ys
    using assms by (cases ys) simp_all
  then show ?thesis by (induction xs) (simp_all add: js_sort_def)
qed

lemma js_slice0_take: "\<exists>k. js_slice0 n xs = take k xs"
  by (auto simp: js_slice0_def Let_def)

lemma js_slice0_all: "int (length xs) \<le> n \<Longrightarrow> js_slice0 n xs = xs"
  by (auto simp: js_slice0_def Let_def)

lemma length_mongo_limit: "0 < n \<Longrightarrow> length (mongo_limit n xs) = min (nat n) (length xs)"
  by (simp add: mongo_limit_def)

lemma length_js_slice0: "0 < n \<Longrightarrow> length (js_slice0 n xs) = min (nat n) (length xs)"
  by (auto simp: js_slice0_def Let_def)

lemma mongo_limit_take: "\<exists>k. mongo_limit n xs = take k xs"
  by (cases "n = 0") (auto simp: mongo_limit_def intro: exI [of _ "length xs"])

lemma length_js_sort: "length (js_sort cmp xs) = length xs"
proof -
  have "length (sort_insert cmp x ys) = Suc (length ys)" for x ys
    by (induction ys) auto
  then show ?thesis by (induction xs) (auto simp: js_sort_def)
qed

section \<open>The two example engines keep the promise of the database\<close>

lemma doc_le_total: "doc_le opt a b \<or> doc_le opt b a"
  by (cases opt; cases "case opt of Ascending f \<Rightarrow> f | Descending f \<Rightarrow> f") auto

lemma doc_le_trans: "doc_le opt a b \<Longrightarrow> doc_le opt b c \<Longrightarrow> doc_le opt a c"
  by (cases opt; cases "case opt of Ascending f \<Rightarrow> f | Descending f \<Rightarrow> f") auto

lemma mset_doc_insert: "mset (doc_insert opt x ys) = add_mset x (mset ys)"
  by (induction ys) auto

lemma set_doc_insert: "set (doc_insert opt x ys) = insert x (set ys)"
  by (induction ys) auto

lemma sorted_doc_insert:
  "sorted_wrt (doc_le opt) ys \<Longrightarrow> sorted_wrt (doc_le opt) (doc_insert opt x ys)"
proof (induction ys)
  case Nil
  show ?case by simp
next
  case (Cons y ys)
  show ?case
  proof (cases "doc_le opt x y")
    case True
    then have "\<forall>z\<in>set ys. doc_le opt x z"
      using Cons.prems doc_le_trans by auto
    with True Cons.prems show ?thesis by simp
  next
    case False
    then have yx: "doc_le opt y x" using doc_le_total by blast
    with False Cons show ?thesis by (auto simp: set_doc_insert)
  qed
qed

lemma sorted_query_stable_engine: "sorted_query stable_engine opt docs"
proof -
  have "mset (foldr (doc_insert opt) docs []) = mset docs"
    by (induction docs) (simp_all add: mset_doc_insert)
  moreover have "sorted_wrt (doc_le opt) (foldr (doc_insert opt) docs [])"
    by (induction docs) (simp_all add: sorted_doc_insert)
  ultimately show ?thesis by (simp add: sorted_query_def stable_engine_def)
qed

lemma sorted_query_reversing_engine: "sorted_query reversing_engine opt docs"
  using sorted_query_stable_engine [of opt "rev docs"]
  by (simp add: sorted_query_def reversing_engine_def)

section \<open>The comparators of the handler\<close>

text \<open>
  \<open>Object.values\<close> of the native \<open>Map\<close> is empty, \<open>Math.min()\<close> is \<open>Infinity\<close> and
  \<open>Math.max()\<close> is \<open>-Infinity\<close> for every product: both comparators return \<open>NaN\<close> for
  every pair, and the sort moves nothing.
\<close>

lemma cheapest_cmp_NaN: "cheapest_cmp a b = NaN"
  by (simp add: cheapest_cmp_def toObject_def)

lemma highest_different_cmp_NaN: "highest_different_cmp a b = NaN"
  by (simp add: highest_different_cmp_def toObject_def)

lemma cheapest_branch:
  "getTopProducts eng docs (Some ''cheapest'') qlimit
     = js_slice0 (case qlimit of None \<Rightarrow> 10 | Some n \<Rightarrow> if n = 0 then 10 else n) docs"
  by (simp add: getTopProducts_def js_sort_never_behind cheapest_cmp_NaN)

lemma highest_different_branch:
  "getTopProducts eng docs (Some ''highest different'') qlimit
     = js_slice0 (case qlimit of None \<Rightarrow> 10 | Some n \<Rightarrow> if n = 0 then 10 else n) docs"
  by (simp add: getTopProducts_def js_sort_never_behind highest_different_cmp_NaN)

lemma stable_prefix:
  fixes key :: "'a \<Rightarrow> 'k::linorder"
  assumes "\<And>a b. js_pos (cmp a b) \<longleftrightarrow> key b < key a"
  shows "prefix (filter (ties cmp p) (js_slice0 l (js_sort cmp xs))) (filter (ties cmp p) xs)"
proof -
  have t: "ties cmp p = (\<lambda>q. key q = key p)"
    by (auto simp: ties_def assms fun_eq_iff)
  have s: "js_sort cmp xs = sort_key key xs"
    by (rule js_sort_sort_key) (simp add: assms)
  obtain k where k: "js_slice0 l (sort_key key xs) = take k (sort_key key xs)"
    using js_slice0_take by blast
  have "prefix (filter (\<lambda>q. key q = key p) (take k (sort_key key xs)))
      (filter (\<lambda>q. key q = key p) (sort_key key xs))"
    by (rule filter_mono_prefix) (rule take_is_prefix)
  then show ?thesis by (simp add: t s k sort_key_stable)
qed

section \<open>The answers to cheapest and highest different\<close>

text \<open>
  C5 asks that the answer to \<open>cheapest\<close> be in ascending order of the least price of
  each product. The handler does not deliver it: its comparator is \<open>NaN\<close> for every
  pair, the sort moves nothing, and the answer is the front part of the collection in
  its own order. Here \<open>A\<close>, with the least price \<open>10\<close>, stays before \<open>B\<close>, with the
  least price \<open>5\<close>.
\<close>

theorem cheapest_keeps_collection_order:
  "getTopProducts stable_engine [product_A, product_B, product_D] (Some ''cheapest'') (Some 2)
     = [product_A, product_B]
   \<and> prices product_A = [(''x'', 10), (''y'', 12)]
   \<and> prices product_B = [(''x'', 5), (''y'', 5)]"
  by (simp add: cheapest_branch js_slice0_def product_A_def product_B_def)

text \<open>
  C6 asks that the answer to \<open>highest different\<close> be in descending order of the
  spread of each product. The handler does not deliver it, for the same reason as for
  C5: \<open>B\<close>, with the spread \<open>0\<close>, stays before \<open>D\<close>, with the spread \<open>10\<close>.
\<close>

theorem highest_different_keeps_collection_order:
  "getTopProducts stable_engine [product_B, product_D] (Some ''highest different'') (Some 10)
     = [product_B, product_D]
   \<and> prices product_B = [(''x'', 5), (''y'', 5)]
   \<and> prices product_D = [(''x'', 10), (''y'', 20)]"
  by (simp add: highest_different_branch js_slice0_def product_B_def product_D_def)

text \<open>
  C1, as the code has it. The handler has no filter on the price map: a product whose
  price map is empty is returned like any other. When the limit does not cut the list,
  the answer to \<open>cheapest\<close> and to \<open>highest different\<close> holds every product of the
  collection.
\<close>

theorem unpriced_products_are_returned:
  assumes "crit = ''cheapest'' \<or> crit = ''highest different''"
    and "int (length docs) \<le> n"
  shows "mset (getTopProducts eng docs (Some crit) (Some n)) = mset docs"
proof -
  have l: "int (length docs) \<le> (if n = 0 then 10 else n)"
    using assms(2) by auto
  from assms(1) show ?thesis
    by (auto simp: cheapest_branch highest_different_branch js_slice0_all [OF l])
qed

theorem unpriced_products_are_returned_witness:
  "mset (getTopProducts stable_engine [product_A, product_B, product_C] (Some ''cheapest'') (Some 10))
     = mset [product_A, product_B, product_C]
   \<and> prices product_C = []"
proof -
  have h1: "''cheapest'' = ''cheapest'' \<or> ''cheapest'' = ''highest different''" by simp
  have h2: "int (length [product_A, product_B, product_C]) \<le> 10" by simp
  have c: "prices product_C = []" by (simp add: product_C_def)
  show ?thesis
    using unpriced_products_are_returned [OF h1 h2, of stable_engine] c by simp
qed

text \<open>
  The claim C1 as stated fails: the product \<open>C\<close> without prices is in both answers.
\<close>

theorem unpriced_product_in_ranking:
  "prices product_C = []
   \<and> getTopProducts stable_engine [product_A, product_B, product_C] (Some ''cheapest'') (Some 10)
       = [product_A, product_B, product_C]
   \<and> getTopProducts stable_engine [product_C, product_B, product_A]
         (Some ''highest different'') (Some 10)
       = [product_C, product_B, product_A]"
  by (simp add: cheapest_branch highest_different_branch js_slice0_def product_C_def)

section \<open>The length of the answer\<close>

text \<open>
  C2, as the code has it. For a limit \<open>n > 0\<close> the answer has \<open>min n (length docs)\<close>
  products under every criterion: every product of the collection qualifies, and a
  limit beyond the size of the collection yields all of it.
\<close>

theorem ranking_length:
  assumes "sorted_query eng (Descending Popularity) docs"
    and "sorted_query eng (Descending Rating) docs"
    and "sorted_query eng (Ascending Name) docs"
    and "0 < n"
  shows "length (getTopProducts eng docs qcriteria (Some n)) = min (nat n) (length docs)"
proof -
  have len: "length (eng (Descending Popularity) docs) = length docs"
    "length (eng (Descending Rating) docs) = length docs"
    "length (eng (Ascending Name) docs) = length docs"
    using assms(1-3) by (auto simp: sorted_query_def dest: mset_eq_length)
  show ?thesis
    using assms(4)
    by (simp add: getTopProducts_def Let_def length_mongo_limit length_js_slice0 length_js_sort len)
qed

theorem ranking_length_witness:
  "length (getTopProducts stable_engine [product_A, product_B, product_D]
       (Some ''most selected'') (Some 2)) = 2
   \<and> length (getTopProducts stable_engine [product_A, product_B, product_D]
       (Some ''cheapest'') (Some 7)) = 3"
proof -
  have p: "(0::int) < 2" "(0::int) < 7" by simp_all
  show ?thesis
    using ranking_length [OF sorted_query_stable_engine sorted_query_stable_engine
        sorted_query_stable_engine p(1),
        where docs = "[product_A, product_B, product_D]" and qcriteria = "Some ''most selected''"]
      ranking_length [OF sorted_query_stable_engine sorted_query_stable_engine
        sorted_query_stable_engine p(2),
        where docs = "[product_A, product_B, product_D]" and qcriteria = "Some ''cheapest''"]
    by simp
qed

text \<open>
  The claim C2 as stated fails: the limit \<open>0\<close> yields three products and the limit
  \<open>-1\<close> two, where it says none; and with the limit \<open>10\<close> the collection of \<open>A\<close>, \<open>B\<close>
  and the product \<open>C\<close> without prices yields three products under \<open>cheapest\<close>, where
  it counts two that qualify.
\<close>

theorem nonpositive_limit_not_empty:
  "length (getTopProducts stable_engine [product_A, product_B, product_D]
       (Some ''cheapest'') (Some 0)) = 3
   \<and> length (getTopProducts stable_engine [product_A, product_B, product_D]
       (Some ''cheapest'') (Some (- 1))) = 2
   \<and> prices product_C = []
   \<and> length (getTopProducts stable_engine [product_A, product_B, product_C]
       (Some ''cheapest'') (Some 10)) = 3"
  by (simp add: cheapest_branch js_slice0_def product_C_def)

section \<open>Criteria that the handler does not name\<close>

text \<open>
  C4, as the code has it. A non-empty criterion that is none of \<open>cheapest\<close>,
  \<open>highest different\<close>, \<open>most selected\<close>, \<open>highest rated\<close> takes the default branch:
  the answer is the one for \<open>not_a_real_criterion\<close>, in ascending order of the name
  when the database sorts as promised. The empty criterion and the absent one are
  replaced by \<open>cheapest\<close> and get the answer of that criterion.
\<close>

theorem unrecognized_criterion_default:
  assumes "c \<notin> recognized" and "c \<noteq> []"
  shows "getTopProducts eng docs (Some c) qlimit
           = getTopProducts eng docs (Some ''not_a_real_criterion'') qlimit
    \<and> (sorted_query eng (Ascending Name) docs \<longrightarrow>
         (\<exists>rest. mset (getTopProducts eng docs (Some c) qlimit @ rest) = mset docs
            \<and> sorted (map name (getTopProducts eng docs (Some c) qlimit @ rest))))
    \<and> getTopProducts eng docs (Some []) qlimit = getTopProducts eng docs (Some ''cheapest'') qlimit
    \<and> getTopProducts eng docs None qlimit = getTopProducts eng docs (Some ''cheapest'') qlimit"
proof -
  define l where "l = (case qlimit of None \<Rightarrow> 10 | Some n \<Rightarrow> if n = 0 then 10 else (n::int))"
  have out: "getTopProducts eng docs (Some c) qlimit = mongo_limit l (eng (Ascending Name) docs)"
    using assms by (simp add: getTopProducts_def recognized_def l_def)
  have dflt: "getTopProducts eng docs (Some ''not_a_real_criterion'') qlimit
      = mongo_limit l (eng (Ascending Name) docs)"
    by (simp add: getTopProducts_def l_def)
  have asc: "\<exists>rest. mset (mongo_limit l (eng (Ascending Name) docs) @ rest) = mset docs
            \<and> sorted (map name (mongo_limit l (eng (Ascending Name) docs) @ rest))"
    if q: "sorted_query eng (Ascending Name) docs"
  proof -
    obtain k where k: "mongo_limit l (eng (Ascending Name) docs) = take k (eng (Ascending Name) docs)"
      using mongo_limit_take by blast
    have "mset (take k (eng (Ascending Name) docs) @ drop k (eng (Ascending Name) docs)) = mset docs"
      using q by (simp add: sorted_query_def)
    moreover have "sorted (map name (take k (eng (Ascending Name) docs) @ drop k (eng (Ascending Name) docs)))"
    proof -
      have "doc_le (Ascending Name) = (\<lambda>a b. name a \<le> name b)"
        by (simp add: fun_eq_iff)
      then show ?thesis using q by (simp add: sorted_query_def sorted_map)
    qed
    ultimately show ?thesis unfolding k by blast
  qed
  have e: "getTopProducts eng docs (Some []) qlimit = getTopProducts eng docs (Some ''cheapest'') qlimit"
    "getTopProducts eng docs None qlimit = getTopProducts eng docs (Some ''cheapest'') qlimit"
    by (simp_all add: getTopProducts_def)
  show ?thesis using out dflt asc e by simp
qed

theorem unrecognized_criterion_default_witness:
  "''highest_different'' \<notin> recognized
   \<and> getTopProducts stable_engine [product_D, product_B, product_A] (Some ''highest_different'') (Some 2)
       = [product_A, product_B]
   \<and> getTopProducts stable_engine [product_D, product_B, product_A] (Some ''not_a_real_criterion'') (Some 2)
       = [product_A, product_B]"
proof -
  have h1: "''highest_different'' \<notin> recognized" by (simp add: recognized_def)
  have h2: "''highest_different'' \<noteq> []" by simp
  have e: "getTopProducts stable_engine [product_D, product_B, product_A] (Some ''not_a_real_criterion'') (Some 2)
       = [product_A, product_B]"
    by (simp add: getTopProducts_def mongo_limit_def stable_engine_def
        product_A_def product_B_def product_D_def)
  show ?thesis
    using h1 e unrecognized_criterion_default [OF h1 h2, of stable_engine "[product_D, product_B, product_A]" "Some 2"]
    by (simp only: simp_thms)
qed

text \<open>
  The claim C4 as stated fails at the empty criterion: for the collection \<open>B\<close>, \<open>A\<close>
  it answers \<open>B\<close>, \<open>A\<close>, where an unrecognized criterion answers in the order of the
  names, \<open>A\<close>, \<open>B\<close>.
\<close>

theorem empty_criterion_is_not_default:
  "getTopProducts stable_engine [product_B, product_A] (Some []) (Some 10) = [product_B, product_A]
   \<and> getTopProducts stable_engine [product_B, product_A] (Some ''not_a_real_criterion'') (Some 10)
       = [product_A, product_B]"
proof -
  have "getTopProducts stable_engine [product_B, product_A] (Some []) (Some 10)
      = getTopProducts stable_engine [product_B, product_A] (Some ''cheapest'') (Some 10)"
    by (simp add: getTopProducts_def)
  then have 1: "getTopProducts stable_engine [product_B, product_A] (Some []) (Some 10)
      = [product_B, product_A]"
    by (simp add: cheapest_branch js_slice0_def)
  have 2: "getTopProducts stable_engine [product_B, product_A] (Some ''not_a_real_criterion'') (Some 10)
       = [product_A, product_B]"
    by (simp add: getTopProducts_def mongo_limit_def stable_engine_def product_A_def product_B_def)
  show ?thesis using 1 2 by simp
qed

section \<open>Ties\<close>

text \<open>
  C7, as the code has it. Under \<open>cheapest\<close> and \<open>highest different\<close>, which are sorted
  by \<open>Array.prototype.sort\<close>, the products that tie with a product \<open>p\<close> keep their
  collection order: those in the answer are the first of them, in the same order.
\<close>

theorem in_memory_ranking_stable:
  "prefix (filter (ties cheapest_cmp p) (getTopProducts eng docs (Some ''cheapest'') qlimit))
      (filter (ties cheapest_cmp p) docs)
   \<and> prefix (filter (ties highest_different_cmp p)
        (getTopProducts eng docs (Some ''highest different'') qlimit))
      (filter (ties highest_different_cmp p) docs)"
proof -
  define l where "l = (case qlimit of None \<Rightarrow> 10 | Some n \<Rightarrow> if n = 0 then 10 else (n::int))"
  have "prefix (filter (ties cheapest_cmp p) (js_slice0 l (js_sort cheapest_cmp docs)))
      (filter (ties cheapest_cmp p) docs)"
    by (rule stable_prefix [where key = "\<lambda>_. 0::nat"]) (simp add: cheapest_cmp_NaN)
  moreover have "prefix (filter (ties highest_different_cmp p)
        (js_slice0 l (js_sort highest_different_cmp docs)))
      (filter (ties highest_different_cmp p) docs)"
    by (rule stable_prefix [where key = "\<lambda>_. 0::nat"]) (simp add: highest_different_cmp_NaN)
  ultimately show ?thesis by (simp add: getTopProducts_def l_def)
qed

text \<open>
  The claim C7 as stated fails for the criteria that the database sorts: an engine that
  sorts by descending popularity as promised may return two products of equal
  popularity in the reverse of their collection order.
\<close>

theorem database_ranking_reorders_ties:
  "sorted_query reversing_engine (Descending Popularity) [product_A, product_B]
   \<and> popularity product_A = popularity product_B
   \<and> getTopProducts reversing_engine [product_A, product_B] (Some ''most selected'') (Some 10)
       = [product_B, product_A]"
proof -
  have "getTopProducts reversing_engine [product_A, product_B] (Some ''most selected'') (Some 10)
       = [product_B, product_A]"
    by (simp add: getTopProducts_def mongo_limit_def reversing_engine_def stable_engine_def
        product_A_def product_B_def)
  moreover have "popularity product_A = popularity product_B"
    by (simp add: product_A_def product_B_def)
  ultimately show ?thesis using sorted_query_reversing_engine by blast
qed

section \<open>Totals per supermarket\<close>

text \<open>The example of the specification, with exact arithmetic.\<close>

lemma totals_of_the_example:
  "getSupermarketTotals Fin [item_1, item_2] ''x'' = Some (Number (Fin 25))"
  "getSupermarketTotals Fin [item_1, item_2] ''y'' = Some (Number (Fin 16))"
  "getSupermarketTotals Fin [item_1, item_2] ''z'' = None"
  "getSupermarketTotals Fin [] = Map.empty"
  by (simp_all add: getSupermarketTotals_def add_entry_def get_property_def set_property_def
      object_prototype_keys_def js_falsy_def item_1_def item_2_def Let_def)

text \<open>
  C3 asks that every supermarket of the cart be mapped to the sum of
  \<open>price \<times> quantity\<close>. The code misses the supermarkets whose name is a property
  that \<open>totals\<close> inherits: the user adds two units of a product that the supermarket
  \<open>toString\<close> sells for \<open>5\<close>; \<open>totals["toString"]\<close> is the inherited function, which is
  truthy, so the entry is not set to \<open>0\<close>, and \<open>+=\<close> makes it the string of the function
  followed by the number \<open>10\<close>, not the number.
\<close>

theorem inherited_market_name:
  "(let cart = ui_cart (run rnd [Type_quantity (Fin 2), Add_from_ProductCard product_E] initial_state)
    in map item_prices cart = [[(''toString'', 5)]]
       \<and> map quantity cart = [Fin 2]
       \<and> getSupermarketTotals rnd cart ''toString''
           = Some (Concat (Inherited ''toString'') (rnd 10)))"
  by (simp add: Let_def run_def initial_state_def typed_quantity_def js_ge_def addToCart_def
      with_quantity_def getSupermarketTotals_def add_entry_def get_property_def set_property_def
      object_prototype_keys_def product_E_def)

section \<open>The lines of the cart\<close>

lemma findIndex_range: "- 1 \<le> findIndex P xs \<and> findIndex P xs < int (length xs)"
  by (induction xs) (auto simp: Let_def)

lemma findIndex_found: "(- 1 < findIndex P xs) \<longleftrightarrow> (\<exists>x\<in>set xs. P x)"
proof (induction xs)
  case Nil
  show ?case by simp
next
  case (Cons x xs)
  then show ?case using findIndex_range [of P xs] by (auto simp: Let_def)
qed

lemma update_found:
  assumes "distinct (map item_id xs)" and "pid \<in> item_id ` set xs"
  shows "xs[nat (findIndex (\<lambda>item. item_id item = pid) xs)
            := f (xs ! nat (findIndex (\<lambda>item. item_id item = pid) xs))]
         = map (\<lambda>item. if item_id item = pid then f item else item) xs"
  using assms
proof (induction xs)
  case Nil
  then show ?case by simp
next
  case (Cons x xs)
  show ?case
  proof (cases "item_id x = pid")
    case True
    then have "\<forall>y\<in>set xs. item_id y \<noteq> pid"
      using Cons.prems(1) by (force simp: image_iff)
    then have "map (\<lambda>item. if item_id item = pid then f item else item) xs = xs"
      by (simp add: map_idI)
    with True show ?thesis by simp
  next
    case False
    then have in_xs: "pid \<in> item_id ` set xs" using Cons.prems(2) by auto
    then have "- 1 < findIndex (\<lambda>item. item_id item = pid) xs"
      by (auto simp: findIndex_found)
    then have n: "nat (findIndex (\<lambda>item. item_id item = pid) xs + 1)
        = Suc (nat (findIndex (\<lambda>item. item_id item = pid) xs))"
      "findIndex (\<lambda>item. item_id item = pid) xs \<noteq> - 1"
      by auto
    have "distinct (map item_id xs)" using Cons.prems(1) by simp
    from Cons.IH [OF this in_xs] False n show ?thesis by (simp add: Let_def)
  qed
qed

lemma map_item_id_update:
  "map (item_id \<circ> (\<lambda>item. if item_id item = pid then item\<lparr>quantity := g item\<rparr> else item)) cart
     = map item_id cart"
  by (induction cart) auto

text \<open>
  In a cart whose identifiers are pairwise distinct, \<open>addToCart\<close> of a product whose
  identifier is present adds the amount to the quantity of that line and changes
  nothing else; otherwise it appends one line with that quantity. \<open>addToCart\<close>,
  \<open>removeFromCart\<close>, \<open>updateQuantity\<close> and \<open>clearCart\<close> keep the identifiers distinct.
\<close>

lemma addToCart_by_identifier:
  assumes "distinct (map item_id cart)"
  shows "(ident p \<in> item_id ` set cart \<longrightarrow>
            addToCart rnd cart p (Some q)
              = map (\<lambda>item. if item_id item = ident p
                              then item\<lparr>quantity := js_add rnd (quantity item) q\<rparr> else item) cart)
    \<and> (ident p \<notin> item_id ` set cart \<longrightarrow>
          addToCart rnd cart p (Some q)
            = cart @ [\<lparr>item_id = ident p, item_name = name p, item_prices = prices p,
                       quantity = q, other_fields = Some p\<rparr>])
    \<and> addToCart rnd cart p None = addToCart rnd cart p (Some (Fin 1))
    \<and> distinct (map item_id (addToCart rnd cart p (Some q)))
    \<and> distinct (map item_id (removeFromCart cart productId))
    \<and> distinct (map item_id (updateQuantity cart productId newQuantity))
    \<and> distinct (map item_id (clearCart cart))"
proof -
  have present: "addToCart rnd cart p (Some q)
      = map (\<lambda>item. if item_id item = ident p
                      then item\<lparr>quantity := js_add rnd (quantity item) q\<rparr> else item) cart"
    if "ident p \<in> item_id ` set cart"
  proof -
    have "- 1 < findIndex (\<lambda>item. item_id item = ident p) cart"
      using that by (auto simp: findIndex_found)
    then show ?thesis
      using update_found [OF assms that,
          of "\<lambda>item. item\<lparr>quantity := js_add rnd (quantity item) q\<rparr>"]
      by (simp add: addToCart_def Let_def)
  qed
  have absent: "addToCart rnd cart p (Some q)
      = cart @ [\<lparr>item_id = ident p, item_name = name p, item_prices = prices p,
                 quantity = q, other_fields = Some p\<rparr>]"
    if "ident p \<notin> item_id ` set cart"
  proof -
    have "\<not> - 1 < findIndex (\<lambda>item. item_id item = ident p) cart"
      using that by (force simp: findIndex_found image_iff)
    then show ?thesis by (simp add: addToCart_def Let_def with_quantity_def)
  qed
  have add: "distinct (map item_id (addToCart rnd cart p (Some q)))"
  proof (cases "ident p \<in> item_id ` set cart")
    case True
    show ?thesis using assms by (simp add: present [OF True] map_item_id_update)
  next
    case False
    then show ?thesis using assms by (simp add: absent)
  qed
  have rem: "distinct (map item_id (removeFromCart cart productId))"
    using assms by (simp add: removeFromCart_def distinct_map_filter)
  have upd: "distinct (map item_id (updateQuantity cart productId newQuantity))"
    using assms by (simp add: updateQuantity_def map_item_id_update)
  have clr: "distinct (map item_id (clearCart cart))"
    by (simp add: clearCart_def)
  have dflt: "addToCart rnd cart p None = addToCart rnd cart p (Some (Fin 1))"
    by (simp add: addToCart_def)
  show ?thesis
    using present absent add rem upd clr dflt by blast
qed

text \<open>
  C9 asks that the cart never hold two lines for the same product. The program breaks
  it after a saved cart is loaded: the user adds three units of the product \<open>B\<close>, whose
  identifier is the number \<open>2\<close>, saves the cart, loads the saved cart, whose items
  carry the identifier as a string, and adds two units of \<open>B\<close>: \<open>===\<close> finds no line with
  the number \<open>2\<close>, and the cart holds two lines for \<open>B\<close>.
\<close>

theorem two_lines_for_one_product:
  "(let s1 = run rnd [Type_quantity (Fin 3), Add_from_ProductCard product_B] initial_state;
        saved = map (stored_item to_string) (ui_cart s1);
        s2 = run rnd [Load_saved saved, Type_quantity (Fin 2), Add_from_ProductCard product_B] s1
    in ui_cart s1 =
         [\<lparr>item_id = NumId 2, item_name = ''B'', item_prices = [(''x'', 5), (''y'', 5)],
           quantity = Fin 3, other_fields = Some product_B\<rparr>]
       \<and> loads_stored_items (Load_saved saved)
       \<and> ui_cart s2 =
         [\<lparr>item_id = StrId (to_string 2), item_name = ''B'', item_prices = [(''x'', 5), (''y'', 5)],
           quantity = Fin 3, other_fields = None\<rparr>,
          \<lparr>item_id = NumId 2, item_name = ''B'', item_prices = [(''x'', 5), (''y'', 5)],
           quantity = Fin 2, other_fields = Some product_B\<rparr>])"
  by (simp add: Let_def run_def initial_state_def typed_quantity_def js_ge_def addToCart_def
      loadCart_def stored_item_def with_quantity_def CartSchema_quantity_def product_B_def)

section \<open>The quantities of the cart\<close>























section \<open>Saving an empty cart\<close>

text \<open>
  C10. \<open>saveCart\<close> on an empty cart returns \<open>null\<close>, records the error and leaves the
  world outside the browser untouched, whatever the functions that reach the server
  are. The handler of POST /api/cart answers 400 and leaves the collection as it is
  when \<open>items\<close> is missing (or another falsy value), is not an array, or is the empty
  array, whatever \<open>save\<close> is.
\<close>

theorem empty_cart_not_saved:
  "(current_cart st = [] \<longrightarrow>
      saveCart saveCartToDB getSavedCarts currentUser name_arg now st w
        = (None, st\<lparr>error := Some ''Cannot save an empty cart'', loading := False\<rparr>, w))
   \<and> (body_items req_body = Falsy \<or> body_items req_body = NonArray
        \<or> body_items req_body = Array [] \<longrightarrow>
      post_cart save now' userId req_body s
        = (\<lparr>status = 400, body = Message CartEmptyCannotSave\<rparr>, s))"
  by (auto simp: saveCart_def post_cart_def)

theorem empty_cart_not_saved_witness:
  "saveCart (direct_save ''1700000000000'' ''u1'') direct_fetch True (Some ''weekly'') ''1700000000000''
      empty_state []
     = (None, empty_state\<lparr>error := Some ''Cannot save an empty cart''\<rparr>, [])
   \<and> post_cart accepting_save ''1700000000000'' ''u1'' \<lparr>body_name = Some ''weekly'', body_items = Array []\<rparr> []
     = (\<lparr>status = 400, body = Message CartEmptyCannotSave\<rparr>, [])
   \<and> post_cart accepting_save ''1700000000000'' ''u1'' \<lparr>body_name = None, body_items = Falsy\<rparr> []
     = (\<lparr>status = 400, body = Message CartEmptyCannotSave\<rparr>, [])"
proof -
  have c: "current_cart empty_state = []" by (simp add: empty_state_def)
  have e: "empty_state\<lparr>error := Some ''Cannot save an empty cart'', loading := False\<rparr>
      = empty_state\<lparr>error := Some ''Cannot save an empty cart''\<rparr>"
    by (simp add: empty_state_def)
  have b: "body_items \<lparr>body_name = Some ''weekly'', body_items = Array []\<rparr> = Array []"
    "body_items \<lparr>body_name = None, body_items = Falsy\<rparr> = (Falsy :: cart_item body_field)"
    by simp_all
  from empty_cart_not_saved [of empty_state "direct_save ''1700000000000'' ''u1''" direct_fetch True
      "Some ''weekly''" "''1700000000000''" "[]" "\<lparr>body_name = Some ''weekly'', body_items = Array []\<rparr>"
      accepting_save "''1700000000000''" "''u1''" "[]"] c b(1)
  have 1: "saveCart (direct_save ''1700000000000'' ''u1'') direct_fetch True (Some ''weekly'') ''1700000000000''
      empty_state []
     = (None, empty_state\<lparr>error := Some ''Cannot save an empty cart'', loading := False\<rparr>, [])"
    and 2: "post_cart accepting_save ''1700000000000'' ''u1'' \<lparr>body_name = Some ''weekly'', body_items = Array []\<rparr> []
     = (\<lparr>status = 400, body = Message CartEmptyCannotSave\<rparr>, [])"
    by blast+
  from empty_cart_not_saved [of empty_state "direct_save ''1700000000000'' ''u1''" direct_fetch True
      "Some ''weekly''" "''1700000000000''" "[]" "\<lparr>body_name = None, body_items = Falsy\<rparr>"
      accepting_save "''1700000000000''" "''u1''" "[]"] b(2)
  have 3: "post_cart accepting_save ''1700000000000'' ''u1'' \<lparr>body_name = None, body_items = Falsy\<rparr> []
     = (\<lparr>status = 400, body = Message CartEmptyCannotSave\<rparr>, [])"
    by blast
  show ?thesis using 1 2 3 by (simp only: e simp_thms)
qed

end
